theory Spec2Isabelle
  imports Complex_Main "HOL-Library.Sublist"
begin

section \<open>Strings\<close>

text \<open>
  Python's \<^verbatim>\<open>str.startswith\<close> and \<^verbatim>\<open>str.endswith\<close>, and JavaScript's
  \<^verbatim>\<open>startsWith\<close> and \<^verbatim>\<open>endsWith\<close>. A string is a list of characters; the
  classifiers below only look for the ASCII characters of the scheme names, the space and
  the dot.
\<close>

definition startswith :: "string \<Rightarrow> string \<Rightarrow> bool" where
  "startswith text p = prefix p text"

definition endswith :: "string \<Rightarrow> string \<Rightarrow> bool" where
  "endswith text p = suffix p text"

text \<open>\<^verbatim>\<open>text.startswith((p1, p2, ...))\<close>: one of the prefixes matches.\<close>

definition startswith_any :: "string \<Rightarrow> string list \<Rightarrow> bool" where
  "startswith_any text ps = list_ex (startswith text) ps"

section \<open>URL versus search query\<close>

text \<open>
  \<^verbatim>\<open>ViceCityBrowser.is_url\<close> (browser.py), the classifier of the address bar:
  \<^verbatim>\<open>
  def is_url(self, text):
      if ' ' in text:
          return False
      if '.' in text and not text.startswith('.') and not text.endswith('.'):
          return True
      if text.startswith(('http://', 'https://', 'file://', 'ftp://')):
          return True
      return False
  \<close>
\<close>

definition is_url :: "string \<Rightarrow> bool" where
  "is_url text =
     (if CHR '' '' \<in> set text then False
      else if CHR ''.'' \<in> set text \<and> \<not> startswith text ''.'' \<and> \<not> endswith text ''.'' then True
      else if startswith_any text [''http://'', ''https://'', ''file://'', ''ftp://''] then True
      else False)"

text \<open>
  The classifier of the home page's search box, the JavaScript that
  \<^verbatim>\<open>create_vice_city_homepage\<close> writes into the document (function
  \<^verbatim>\<open>performSearch\<close>):
  \<^verbatim>\<open>
  // Check if input is a URL (matches Python is_url logic)
  const hasSpace = input.includes(' ');
  const hasDot = input.includes('.') && !input.startsWith('.') && !input.endsWith('.');
  const hasScheme = input.startsWith('http://') || input.startsWith('https://') ||
                   input.startsWith('file://') || input.startsWith('ftp://');
  const isUrl = hasScheme || (hasDot && !hasSpace);
  \<close>
\<close>

definition hasSpace :: "string \<Rightarrow> bool" where
  "hasSpace input = (CHR '' '' \<in> set input)"

definition hasDot :: "string \<Rightarrow> bool" where
  "hasDot input = (CHR ''.'' \<in> set input \<and> \<not> startswith input ''.'' \<and> \<not> endswith input ''.'')"

definition hasScheme :: "string \<Rightarrow> bool" where
  "hasScheme input =
     (startswith input ''http://'' \<or> startswith input ''https://'' \<or>
      startswith input ''file://'' \<or> startswith input ''ftp://'')"

definition isUrl :: "string \<Rightarrow> bool" where
  "isUrl input = (hasScheme input \<or> (hasDot input \<and> \<not> hasSpace input))"

section \<open>Persistence store\<close>

text \<open>
  The two tables that \<^verbatim>\<open>init_database\<close> creates:
  \<^verbatim>\<open>
  history(id INTEGER PRIMARY KEY AUTOINCREMENT, url TEXT NOT NULL, title TEXT,
          timestamp DATETIME DEFAULT CURRENT_TIMESTAMP)
  favorites(id INTEGER PRIMARY KEY AUTOINCREMENT, url TEXT NOT NULL UNIQUE, title TEXT,
            favicon TEXT, timestamp DATETIME DEFAULT CURRENT_TIMESTAMP)
  \<close>
  A table is the list of its rows in insertion order. A nullable column is an
  \<open>option\<close>. A timestamp is the clock reading in seconds (\<^verbatim>\<open>CURRENT_TIMESTAMP\<close>
  has a resolution of one second); the clock is an argument of every operation that
  inserts. The sequence counters are the largest ids given so far (\<^verbatim>\<open>AUTOINCREMENT\<close>).
\<close>

record history_row =
  hist_id :: nat
  hist_url :: string
  hist_title :: "string option"
  hist_timestamp :: nat

record favorite_row =
  fav_id :: nat
  fav_url :: string
  fav_title :: "string option"
  fav_favicon :: "string option"
  fav_timestamp :: nat

record database =
  history :: "history_row list"
  history_seq :: nat
  favorites :: "favorite_row list"
  favorites_seq :: nat

text \<open>
  What the shell reads from a tab's web view (\<^verbatim>\<open>QWebEngineView\<close>):
  \<^verbatim>\<open>browser.url().toString()\<close>, \<^verbatim>\<open>browser.page().title()\<close>,
  \<^verbatim>\<open>browser.iconUrl().toString() if browser.iconUrl() else None\<close> and
  \<^verbatim>\<open>browser.zoomFactor()\<close>. \<^verbatim>\<open>view_zoom\<close> is the number last handed to
  \<^verbatim>\<open>setZoomFactor\<close>, where a number stands for the floating-point literal of the
  source; the web view is storage for it. \<^verbatim>\<open>QUrl(s).toString()\<close> is taken to be
  \<^verbatim>\<open>s\<close>.
\<close>

record web_view =
  view_url :: string
  view_title :: string
  view_icon_url :: "string option"
  view_zoom :: real

text \<open>\<^verbatim>\<open>INSERT INTO history (url, title) VALUES (?, ?)\<close> followed by the commit.\<close>

definition insert_history :: "nat \<Rightarrow> string \<Rightarrow> string \<Rightarrow> database \<Rightarrow> database" where
  "insert_history now url title d =
     d\<lparr>history := history d @
          [\<lparr>hist_id = Suc (history_seq d), hist_url = url, hist_title = Some title,
            hist_timestamp = now\<rparr>],
       history_seq := Suc (history_seq d)\<rparr>"

text \<open>
  \<^verbatim>\<open>
  def save_to_history(self, browser):
      url = browser.url().toString()
      title = browser.page().title()
      if url and url not in ['about:blank', '']:
          self.cursor.execute('INSERT INTO history (url, title) VALUES (?, ?)', (url, title))
          self.conn.commit()
  \<close>
  It is connected to \<^verbatim>\<open>loadFinished\<close> of every tab's web view in
  \<^verbatim>\<open>add_new_tab\<close>.
\<close>

definition save_to_history :: "nat \<Rightarrow> web_view \<Rightarrow> database \<Rightarrow> database" where
  "save_to_history now browser d =
     (let url = view_url browser; title = view_title browser
      in if url \<noteq> [] \<and> url \<notin> set [''about:blank'', ''''] then insert_history now url title d
         else d)"

text \<open>
  \<^verbatim>\<open>SELECT id, url, title, favicon FROM favorites ORDER BY timestamp DESC\<close>.
  SQL leaves the order of rows with equal timestamps open; here they keep their insertion
  order.
\<close>

definition get_favorites :: "database \<Rightarrow> (nat \<times> string \<times> string option \<times> string option) list" where
  "get_favorites d =
     map (\<lambda>r. (fav_id r, fav_url r, fav_title r, fav_favicon r))
       (sort_key (\<lambda>r. - int (fav_timestamp r)) (favorites d))"

text \<open>
  \<^verbatim>\<open>
  def add_favorite(self, url, title, favicon=None):
      try:
          self.cursor.execute('INSERT INTO favorites (url, title, favicon) VALUES (?, ?, ?)',
                              (url, title, favicon))
          self.conn.commit()
          return True
      except sqlite3.IntegrityError:
          return False
  \<close>
  The insert violates the \<^verbatim>\<open>UNIQUE\<close> constraint of the url column exactly when a
  row with this url exists; then sqlite3 raises \<^verbatim>\<open>IntegrityError\<close> and the table is
  as before.
\<close>

definition add_favorite ::
  "nat \<Rightarrow> string \<Rightarrow> string \<Rightarrow> string option \<Rightarrow> database \<Rightarrow> bool \<times> database" where
  "add_favorite now url title favicon d =
     (if url \<in> set (map fav_url (favorites d)) then (False, d)
      else (True,
            d\<lparr>favorites := favorites d @
                 [\<lparr>fav_id = Suc (favorites_seq d), fav_url = url, fav_title = Some title,
                   fav_favicon = favicon, fav_timestamp = now\<rparr>],
              favorites_seq := Suc (favorites_seq d)\<rparr>))"

text \<open>\<^verbatim>\<open>DELETE FROM favorites WHERE url = ?\<close> followed by the commit.\<close>

definition remove_favorite :: "string \<Rightarrow> database \<Rightarrow> database" where
  "remove_favorite url d = d\<lparr>favorites := filter (\<lambda>r. fav_url r \<noteq> url) (favorites d)\<rparr>"

text \<open>\<^verbatim>\<open>SELECT COUNT(*) FROM favorites WHERE url = ?\<close>, compared with 0.\<close>

definition is_favorite :: "string \<Rightarrow> database \<Rightarrow> bool" where
  "is_favorite url d = (length (filter (\<lambda>r. fav_url r = url) (favorites d)) > 0)"

section \<open>Application shell and tab manager\<close>

text \<open>
  The part of \<^verbatim>\<open>ViceCityBrowser\<close> that the tab and favorite operations read and
  write. \<^verbatim>\<open>tabs\<close> is the tab strip (\<^verbatim>\<open>QTabWidget\<close>) with the web view of each
  tab, \<^verbatim>\<open>current\<close> its current index; a web view is identified by its position in
  the strip. \<^verbatim>\<open>dialogs\<close> lists the message boxes shown so far, \<^verbatim>\<open>favorite_btn\<close>
  is the icon file shown on the favorite button. The zoom label of the toolbar is left out.
\<close>

datatype message = Information string string | Warning string string

datatype star_icon = Star | Add_star

datatype error = AttributeError | TypeError

record shell =
  tabs :: "web_view list"
  current :: nat
  home_url :: string
  background_image :: "string option"
  url_bar :: string
  favorite_btn :: star_icon
  store :: database
  dialogs :: "message list"

text \<open>
  \<^verbatim>\<open>create_vice_city_homepage\<close> returns
  \<^verbatim>\<open>"data:text/html;charset=utf-8," + urllib.parse.quote(html)\<close>, where \<^verbatim>\<open>html\<close>
  is the document built from the favorites and the background image. The quoted document
  text is the argument \<open>document\<close>.
\<close>

definition create_vice_city_homepage ::
  "((nat \<times> string \<times> string option \<times> string option) list \<Rightarrow> string option \<Rightarrow> string) \<Rightarrow>
   shell \<Rightarrow> string" where
  "create_vice_city_homepage document s =
     ''data:text/html;charset=utf-8,'' @ document (get_favorites (store s)) (background_image s)"

text \<open>
  \<^verbatim>\<open>
  def current_browser(self):
      current_tab = self.tabs.currentWidget()
      if current_tab:
          return current_tab.browser
      return None
  \<close>
\<close>

definition current_browser :: "shell \<Rightarrow> nat option" where
  "current_browser s = (if current s < length (tabs s) then Some (current s) else None)"

text \<open>
  \<^verbatim>\<open>update_favorite_icon\<close>: the filled star for a favorited page, the empty star
  otherwise and for the special pages.
\<close>

definition update_favorite_icon :: "shell \<Rightarrow> shell" where
  "update_favorite_icon s =
     (case current_browser s of
        None \<Rightarrow> s\<lparr>favorite_btn := Add_star\<rparr>
      | Some b \<Rightarrow>
          (let url = view_url (tabs s ! b)
           in if url \<noteq> [] \<and> url \<notin> set [''about:blank'', ''''] \<and> \<not> startswith url ''data:text/html''
              then (if is_favorite url (store s) then s\<lparr>favorite_btn := Star\<rparr>
                    else s\<lparr>favorite_btn := Add_star\<rparr>)
              else s\<lparr>favorite_btn := Add_star\<rparr>))"

text \<open>
  \<^verbatim>\<open>
  def update_urlbar(self, qurl, browser=None):
      if browser != self.current_browser():
          return
      url_string = qurl.toString()
      if url_string.startswith("data:text/html"):
          self.url_bar.clear()
      else:
          self.url_bar.setText(url_string)
      self.update_favorite_icon()
  \<close>
  The first argument is \<^verbatim>\<open>qurl.toString()\<close>.
\<close>

definition update_urlbar :: "string \<Rightarrow> nat option \<Rightarrow> shell \<Rightarrow> shell" where
  "update_urlbar url_string browser s =
     (if browser \<noteq> current_browser s then s
      else update_favorite_icon
             (if startswith url_string ''data:text/html'' then s\<lparr>url_bar := ''''\<rparr>
              else s\<lparr>url_bar := url_string\<rparr>))"

text \<open>
  \<^verbatim>\<open>
  def on_tab_changed(self, i):
      if i >= 0:
          qurl = self.current_browser().url()
          self.update_urlbar(qurl, self.current_browser())
          self.update_zoom_display()
          self.update_favorite_icon()
  \<close>
\<close>

definition on_tab_changed :: "int \<Rightarrow> shell \<Rightarrow> error + shell" where
  "on_tab_changed i s =
     (if i \<ge> 0 then
        (case current_browser s of
           None \<Rightarrow> Inl AttributeError
         | Some b \<Rightarrow> Inr (update_favorite_icon (update_urlbar (view_url (tabs s ! b)) (Some b) s)))
      else Inr s)"

text \<open>
  \<^verbatim>\<open>QTabWidget.removeTab(i)\<close> as Qt documents it: an index outside the strip is
  ignored; otherwise the tab is taken out, a current index behind it moves down by one,
  a removed current tab hands over to its right neighbour (to the left one when it was
  the last), and \<^verbatim>\<open>currentChanged\<close>, connected to \<^verbatim>\<open>on_tab_changed\<close>, is emitted
  when the current tab has changed. When the last tab goes, the signal carries the index
  -1; the strip is empty then and \<^verbatim>\<open>current\<close> points at no tab.
\<close>

definition removeTab :: "int \<Rightarrow> shell \<Rightarrow> error + shell" where
  "removeTab i s =
     (if 0 \<le> i \<and> i < int (length (tabs s)) then
        (let k = nat i;
             ts = take k (tabs s) @ drop (Suc k) (tabs s);
             c = (if k < current s then current s - 1
                  else if k = current s \<and> length ts \<le> k then k - 1
                  else current s)
         in if k \<le> current s
            then on_tab_changed (if ts = [] then - 1 else int c) (s\<lparr>tabs := ts, current := c\<rparr>)
            else Inr (s\<lparr>tabs := ts\<rparr>))
      else Inr s)"

text \<open>
  \<^verbatim>\<open>
  def close_tab(self, i):
      if self.tabs.count() < 2:
          # If closing the last tab, open startpage instead
          self.current_browser().setUrl(QUrl(self.home_url))
          self.current_browser().setZoomFactor(0.9)
          return
      self.tabs.removeTab(i)
  \<close>
\<close>

definition close_tab :: "int \<Rightarrow> shell \<Rightarrow> error + shell" where
  "close_tab i s =
     (if length (tabs s) < 2 then
        (case current_browser s of
           None \<Rightarrow> Inl AttributeError
         | Some b \<Rightarrow>
             Inr (s\<lparr>tabs := (tabs s)[b := (tabs s ! b)\<lparr>view_url := home_url s, view_zoom := 0.9\<rparr>]\<rparr>))
      else removeTab i s)"

text \<open>
  \<^verbatim>\<open>
  def refresh_homepage(self):
      self.home_url = self.create_vice_city_homepage()
      for i in range(self.tabs.count()):
          tab = self.tabs.widget(i)
          if tab and hasattr(tab, 'browser'):
              current_url = tab.browser.url().toString()
              if current_url.startswith("data:text/html"):
                  tab.browser.setUrl(QUrl(self.home_url))
  \<close>
\<close>

definition refresh_homepage ::
  "((nat \<times> string \<times> string option \<times> string option) list \<Rightarrow> string option \<Rightarrow> string) \<Rightarrow>
   shell \<Rightarrow> shell" where
  "refresh_homepage document s =
     (let h = create_vice_city_homepage document s
      in s\<lparr>home_url := h,
           tabs := map (\<lambda>b. if startswith (view_url b) ''data:text/html'' then b\<lparr>view_url := h\<rparr>
                             else b) (tabs s)\<rparr>)"

text \<open>
  \<^verbatim>\<open>
  def toggle_favorite(self):
      browser = self.current_browser()
      if not browser:
          return
      url = browser.url().toString()
      title = browser.page().title()
      if not url or url in ['about:blank', ''] or url.startswith("data:text/html"):
          QMessageBox.warning(self, "Favorite", "Cannot favorite this page!")
          return
      if self.is_favorite(url):
          self.remove_favorite(url)
          QMessageBox.information(self, "Favorite", "Removed from favorites!")
          self.refresh_homepage()
          self.update_favorite_icon()
      else:
          favicon_url = browser.iconUrl().toString() if browser.iconUrl() else None
          if self.add_favorite(url, title, favicon_url):
              QMessageBox.information(self, "Favorite", "Added to favorites!")
              self.refresh_homepage()
              self.update_favorite_icon()
          else:
              QMessageBox.warning(self, "Favorite", "Already in favorites!")
  \<close>
\<close>

definition show_message :: "message \<Rightarrow> shell \<Rightarrow> shell" where
  "show_message m s = s\<lparr>dialogs := dialogs s @ [m]\<rparr>"

definition toggle_favorite ::
  "((nat \<times> string \<times> string option \<times> string option) list \<Rightarrow> string option \<Rightarrow> string) \<Rightarrow>
   nat \<Rightarrow> shell \<Rightarrow> shell" where
  "toggle_favorite document now s =
     (case current_browser s of
        None \<Rightarrow> s
      | Some b \<Rightarrow>
          (let url = view_url (tabs s ! b); title = view_title (tabs s ! b)
           in if url = [] \<or> url \<in> set [''about:blank'', ''''] \<or> startswith url ''data:text/html''
              then show_message (Warning ''Favorite'' ''Cannot favorite this page!'') s
              else if is_favorite url (store s)
              then update_favorite_icon (refresh_homepage document
                     (show_message (Information ''Favorite'' ''Removed from favorites!'')
                        (s\<lparr>store := remove_favorite url (store s)\<rparr>)))
              else (let favicon_url = view_icon_url (tabs s ! b);
                        (added, d) = add_favorite now url title favicon_url (store s)
                    in if added
                       then update_favorite_icon (refresh_homepage document
                              (show_message (Information ''Favorite'' ''Added to favorites!'')
                                 (s\<lparr>store := d\<rparr>)))
                       else show_message (Warning ''Favorite'' ''Already in favorites!'')
                              (s\<lparr>store := d\<rparr>))))"

section \<open>Zoom steps\<close>

text \<open>
  A Python \<^verbatim>\<open>float\<close> is an IEEE 754 binary64 number: a real number with a 53-bit
  significand. \<open>binary64\<close> rounds a real number to the nearest such number, ties to
  the even significand; it is the value of a decimal literal and the result of an
  arithmetic operation on the exact sum. \<open>exponent\<close> finds the binary exponent of a
  positive number by halving or doubling, at most 1100 times, which covers the whole
  exponent range of binary64 (-1074 to 1023); below \<open>2 ^ - 1022\<close> the spacing stays
  that of the subnormal numbers. Overflow to infinity is not part of the model: the
  numbers of the zoom steps stay below 4.
\<close>

definition pow2 :: "int \<Rightarrow> real" where
  "pow2 e = (if e \<ge> 0 then 2 ^ nat e else 1 / 2 ^ nat (- e))"

fun exponent :: "nat \<Rightarrow> real \<Rightarrow> int" where
  "exponent 0 q = 0"
| "exponent (Suc n) q =
     (if q \<ge> 2 then exponent n (q / 2) + 1
      else if q < 1 then exponent n (q * 2) - 1
      else 0)"

definition round_half_even :: "real \<Rightarrow> int" where
  "round_half_even x =
     (let f = \<lfloor>x\<rfloor>; r = x - of_int f
      in if r < 1 / 2 then f else if r > 1 / 2 then f + 1 else if even f then f else f + 1)"

definition binary64 :: "real \<Rightarrow> real" where
  "binary64 q =
     (if q = 0 then 0
      else (let a = \<bar>q\<bar>;
                e = max (exponent 1100 a) (- 1022);
                u = pow2 (e - 52);
                m = of_int (round_half_even (a / u)) * u
            in if q < 0 then - m else m))"

text \<open>The sum of two floats: the exact sum, rounded.\<close>

definition float_add :: "real \<Rightarrow> real \<Rightarrow> real" where
  "float_add x y = binary64 (x + y)"

text \<open>
  \<^verbatim>\<open>browser.zoomFactor()\<close> returns a float: the stored number as the binary64 number
  nearest to it (the stored number itself when it came out of float arithmetic).
\<close>

definition zoomFactor :: "web_view \<Rightarrow> real" where
  "zoomFactor browser = binary64 (view_zoom browser)"

text \<open>
  \<^verbatim>\<open>
  def zoom_in(self):
      browser = self.current_browser()
      if browser:
          current_zoom = browser.zoomFactor()
          new_zoom = min(current_zoom + 0.1, 3.0)  # Max 300%
          browser.setZoomFactor(new_zoom)
          self.update_zoom_display()
  \<close>
  \<open>new_zoom\<close> is the second assignment. The zoom label that
  \<^verbatim>\<open>update_zoom_display\<close> writes is not part of the shell's state here.
\<close>

definition new_zoom :: "real \<Rightarrow> real" where
  "new_zoom current_zoom = min (float_add current_zoom (binary64 0.1)) (binary64 3.0)"

definition zoom_in :: "shell \<Rightarrow> shell" where
  "zoom_in s =
     (case current_browser s of
        None \<Rightarrow> s
      | Some b \<Rightarrow>
          (let current_zoom = zoomFactor (tabs s ! b)
           in s\<lparr>tabs := (tabs s)[b := (tabs s ! b)\<lparr>view_zoom := new_zoom current_zoom\<rparr>]\<rparr>))"

section \<open>Frameless-window geometry\<close>

text \<open>
  The resize direction is one of eight strings in the source (\<^verbatim>\<open>get_resize_direction\<close>
  returns them); \<open>edge_name\<close> gives the string of each. The source tests a direction
  with \<^verbatim>\<open>'left' in self.resize_direction\<close>, a substring test on that string.
\<close>

datatype edge = Left | Right | Top | Bottom | Top_left | Top_right | Bottom_left | Bottom_right

fun edge_name :: "edge \<Rightarrow> string" where
  "edge_name Left = ''left''"
| "edge_name Right = ''right''"
| "edge_name Top = ''top''"
| "edge_name Bottom = ''bottom''"
| "edge_name Top_left = ''top_left''"
| "edge_name Top_right = ''top_right''"
| "edge_name Bottom_left = ''bottom_left''"
| "edge_name Bottom_right = ''bottom_right''"

definition mentions :: "string \<Rightarrow> edge \<Rightarrow> bool" where
  "mentions word direction = sublist word (edge_name direction)"

record rect =
  rect_x :: int
  rect_y :: int
  rect_width :: int
  rect_height :: int

text \<open>
  The geometry that \<^verbatim>\<open>mouseMoveEvent\<close> computes while a manual resize is under way
  and hands to \<^verbatim>\<open>setGeometry\<close>; \<^verbatim>\<open>ViceCityBrowser\<close> and
  \<^verbatim>\<open>FramelessDialog\<close> have the same lines:
  \<^verbatim>\<open>
  delta = event.globalPosition().toPoint() - self.resize_start_pos
  geo = self.resize_start_geometry
  x = geo.x(); y = geo.y(); width = geo.width(); height = geo.height()
  if 'left' in self.resize_direction:
      new_width = width - delta.x()
      if new_width >= self.minimumWidth():
          x = geo.x() + delta.x()
          width = new_width
  if 'right' in self.resize_direction:
      width = max(self.minimumWidth(), width + delta.x())
  if 'top' in self.resize_direction:
      new_height = height - delta.y()
      if new_height >= self.minimumHeight():
          y = geo.y() + delta.y()
          height = new_height
  if 'bottom' in self.resize_direction:
      height = max(self.minimumHeight(), height + delta.y())
  self.setGeometry(x, y, width, height)
  \<close>
  The arguments are the active edge, the anchor geometry, the pointer delta and the
  window's minimum width and height.
\<close>

definition resize_geometry :: "edge \<Rightarrow> rect \<Rightarrow> int \<times> int \<Rightarrow> int \<Rightarrow> int \<Rightarrow> rect" where
  "resize_geometry direction geo delta minimumWidth minimumHeight =
     (let x = rect_x geo; y = rect_y geo; width = rect_width geo; height = rect_height geo;
          (x, width) =
            (if mentions ''left'' direction then
               (let new_width = width - fst delta
                in if new_width \<ge> minimumWidth then (rect_x geo + fst delta, new_width)
                   else (x, width))
             else (x, width));
          width = (if mentions ''right'' direction then max minimumWidth (width + fst delta)
                   else width);
          (y, height) =
            (if mentions ''top'' direction then
               (let new_height = height - snd delta
                in if new_height \<ge> minimumHeight then (rect_y geo + snd delta, new_height)
                   else (y, height))
             else (y, height));
          height = (if mentions ''bottom'' direction then max minimumHeight (height + snd delta)
                    else height)
      in \<lparr>rect_x = x, rect_y = y, rect_width = width, rect_height = height\<rparr>)"

text \<open>
  The window as the resize handler sees it. \<^verbatim>\<open>mouseMoveEvent\<close> resizes when
  \<^verbatim>\<open>self.resizing and self.resize_direction\<close> holds and otherwise only changes the
  cursor shape, which is not part of this state. The anchor is \<^verbatim>\<open>None\<close> until the
  first press; subtracting it from a point then raises \<^verbatim>\<open>TypeError\<close>.
\<close>

record window =
  geometry :: rect
  minimumWidth :: int
  minimumHeight :: int
  resizing :: bool
  resize_direction :: "edge option"
  resize_start_pos :: "(int \<times> int) option"
  resize_start_geometry :: "rect option"

definition mouseMoveEvent :: "int \<times> int \<Rightarrow> window \<Rightarrow> error + window" where
  "mouseMoveEvent globalPosition w =
     (case (resizing w, resize_direction w) of
        (True, Some direction) \<Rightarrow>
          (case resize_start_pos w of
             None \<Rightarrow> Inl TypeError
           | Some start \<Rightarrow>
               (case resize_start_geometry w of
                  None \<Rightarrow> Inl AttributeError
                | Some geo \<Rightarrow>
                    Inr (w\<lparr>geometry :=
                            resize_geometry direction geo
                              (fst globalPosition - fst start, snd globalPosition - snd start)
                              (minimumWidth w) (minimumHeight w)\<rparr>)))
      | _ \<Rightarrow> Inr w)"

section \<open>Example states\<close>

text \<open>
  A web view on a site, a web view on a home page, and a shell with an empty store whose
  home page is that of the second view.
\<close>

definition example_site :: web_view where
  "example_site =
     \<lparr>view_url = ''https://example.org/'', view_title = ''Example'',
      view_icon_url = Some ''https://example.org/favicon.ico'', view_zoom = 1.5\<rparr>"

definition example_home :: web_view where
  "example_home =
     \<lparr>view_url = ''data:text/html;charset=utf-8,doc'', view_title = ''vicebrowser'',
      view_icon_url = None, view_zoom = 0.9\<rparr>"

definition example_shell :: "web_view list \<Rightarrow> nat \<Rightarrow> shell" where
  "example_shell ts c =
     \<lparr>tabs = ts, current = c, home_url = ''data:text/html;charset=utf-8,doc'',
      background_image = None, url_bar = '''', favorite_btn = Add_star,
      store = \<lparr>history = [], history_seq = 0, favorites = [], favorites_seq = 0\<rparr>,
      dialogs = []\<rparr>"

definition example_rect :: rect where
  "example_rect = \<lparr>rect_x = 100, rect_y = 100, rect_width = 800, rect_height = 600\<rparr>"

section \<open>Properties of the classifiers\<close>

text \<open>
  The address-bar classifier is the search-box classifier restricted to inputs without a
  space: the two agree on every input that has no space, and on every input that has no
  scheme prefix.
\<close>

lemma is_url_isUrl: "is_url text = (isUrl text \<and> \<not> hasSpace text)"
  by (auto simp add: is_url_def isUrl_def hasScheme_def hasDot_def hasSpace_def
      startswith_any_def)

text \<open>
  Claim C2 says that the address bar's classifier and the search box's classifier give
  the same answer on every input. They do not: on the input \<^verbatim>\<open>http://a b\<close>, a scheme
  prefix followed by text with a space, \<^verbatim>\<open>is_url\<close> answers search query and
  \<^verbatim>\<open>isUrl\<close> answers URL, although the comment in the script says that it matches
  \<^verbatim>\<open>is_url\<close>.
\<close>

theorem classifiers_differ:
  "is_url ''http://a b'' = False \<and> isUrl ''http://a b'' = True"
  by (simp add: is_url_def isUrl_def hasScheme_def startswith_def)

text \<open>
  Claim C3: every input that contains a space character is classified as a search query
  by \<^verbatim>\<open>is_url\<close>, whatever dots or scheme prefixes it has.
\<close>

theorem is_url_space_is_query:
  "CHR '' '' \<in> set text \<Longrightarrow> is_url text = False"
  by (simp add: is_url_def)

theorem is_url_space_is_query_witness:
  "CHR '' '' \<in> set ''https://a.b c.d'' \<and> is_url ''https://a.b c.d'' = False"
  using is_url_space_is_query [of "''https://a.b c.d''"] by simp

text \<open>
  Claim C4 says that every input starting with \<^verbatim>\<open>http://\<close>, \<^verbatim>\<open>https://\<close>,
  \<^verbatim>\<open>file://\<close> or \<^verbatim>\<open>ftp://\<close> is classified as a URL by \<^verbatim>\<open>is_url\<close>. The
  space test comes first in the source, so \<^verbatim>\<open>http://a b\<close> starts with a scheme and
  is a search query.
\<close>

theorem is_url_scheme_with_space_counterexample:
  "startswith ''http://a b'' ''http://'' \<and> is_url ''http://a b'' = False"
  by (simp add: is_url_def startswith_def)

text \<open>
  Claim C4 as amended: every input that starts with one of the four scheme prefixes and
  contains no space character is classified as a URL by \<^verbatim>\<open>is_url\<close>.
\<close>

theorem is_url_scheme_without_space:
  "startswith_any text [''http://'', ''https://'', ''file://'', ''ftp://''] \<Longrightarrow>
   CHR '' '' \<notin> set text \<Longrightarrow> is_url text = True"
  by (simp add: is_url_def)

theorem is_url_scheme_without_space_witness:
  "startswith_any ''ftp://host'' [''http://'', ''https://'', ''file://'', ''ftp://''] \<and>
   CHR '' '' \<notin> set ''ftp://host'' \<and> is_url ''ftp://host'' = True"
proof -
  have a: "startswith_any ''ftp://host'' [''http://'', ''https://'', ''file://'', ''ftp://'']"
    by (simp add: startswith_any_def startswith_def)
  have b: "CHR '' '' \<notin> set ''ftp://host''" by simp
  show ?thesis using a b is_url_scheme_without_space [OF a b] by simp
qed

section \<open>Properties of the persistence store\<close>

text \<open>
  What \<^verbatim>\<open>save_to_history\<close> does, by the url of the web view: nothing for the empty
  url and for \<^verbatim>\<open>about:blank\<close>, one insert for every other url.
\<close>

lemma save_to_history_cases:
  "save_to_history now b d =
     (if view_url b = '''' \<or> view_url b = ''about:blank'' then d
      else insert_history now (view_url b) (view_title b) d)"
  by (simp add: save_to_history_def Let_def)

text \<open>
  Claim C1 says that the history write does nothing for the empty url, for
  \<^verbatim>\<open>about:blank\<close> and for the home page, and appends one entry otherwise. For the
  home page the source does not hold back: when a web view shows the generated home page,
  whatever its document, \<^verbatim>\<open>save_to_history\<close> appends a row with the home page's url.
\<close>

theorem save_to_history_records_home_page:
  "history (save_to_history now (b\<lparr>view_url := create_vice_city_homepage document s\<rparr>) d) =
     history d @
       [\<lparr>hist_id = Suc (history_seq d), hist_url = create_vice_city_homepage document s,
         hist_title = Some (view_title b), hist_timestamp = now\<rparr>]"
  by (simp add: save_to_history_def insert_history_def create_vice_city_homepage_def)

lemma count_get_favorites:
  "length (filter (\<lambda>e. fst (snd e) = u) (get_favorites d)) =
   length (filter (\<lambda>r. fav_url r = u) (favorites d))"
proof -
  have "filter (\<lambda>e. fst (snd e) = u) (get_favorites d) =
        map (\<lambda>r. (fav_id r, fav_url r, fav_title r, fav_favicon r))
          (filter (\<lambda>r. fav_url r = u) (sort_key (\<lambda>r. - int (fav_timestamp r)) (favorites d)))"
    by (simp add: get_favorites_def filter_map comp_def)
  then show ?thesis by (simp add: filter_sort)
qed

lemma not_favorite_iff: "\<not> is_favorite u d \<longleftrightarrow> u \<notin> set (map fav_url (favorites d))"
  by (auto simp add: is_favorite_def filter_empty_conv)

text \<open>
  Claim C5: for a url that is not in the favorites table, the first of two consecutive
  \<^verbatim>\<open>add_favorite\<close> calls with it returns \<^verbatim>\<open>True\<close>, the second returns
  \<^verbatim>\<open>False\<close>, and afterwards \<^verbatim>\<open>get_favorites\<close> lists exactly one entry with that
  url. Titles, icons and clock readings of the two calls are arbitrary.
\<close>

theorem add_favorite_twice:
  assumes "\<not> is_favorite u d"
  shows "fst (add_favorite t1 u title1 icon1 d) = True \<and>
         fst (add_favorite t2 u title2 icon2 (snd (add_favorite t1 u title1 icon1 d))) = False \<and>
         length (filter (\<lambda>e. fst (snd e) = u)
           (get_favorites
              (snd (add_favorite t2 u title2 icon2 (snd (add_favorite t1 u title1 icon1 d)))))) = 1"
proof -
  from assms have nin: "u \<notin> set (map fav_url (favorites d))"
    by (simp add: not_favorite_iff)
  then have none: "filter (\<lambda>r. fav_url r = u) (favorites d) = []"
    by (auto simp add: filter_empty_conv)
  show ?thesis using nin none
    by (simp add: add_favorite_def count_get_favorites)
qed

theorem add_favorite_twice_witness:
  "\<not> is_favorite ''https://a.b'' \<lparr>history = [], history_seq = 0, favorites = [], favorites_seq = 0\<rparr> \<and>
   fst (add_favorite 5 ''https://a.b'' ''A'' None
          \<lparr>history = [], history_seq = 0, favorites = [], favorites_seq = 0\<rparr>) = True \<and>
   fst (add_favorite 6 ''https://a.b'' ''A'' None
          (snd (add_favorite 5 ''https://a.b'' ''A'' None
                  \<lparr>history = [], history_seq = 0, favorites = [], favorites_seq = 0\<rparr>))) = False \<and>
   get_favorites
     (snd (add_favorite 6 ''https://a.b'' ''A'' None
        (snd (add_favorite 5 ''https://a.b'' ''A'' None
                \<lparr>history = [], history_seq = 0, favorites = [], favorites_seq = 0\<rparr>)))) =
     [(1, ''https://a.b'', Some ''A'', None)]"
proof -
  have h: "\<not> is_favorite ''https://a.b''
             \<lparr>history = [], history_seq = 0, favorites = [], favorites_seq = 0\<rparr>"
    by (simp add: is_favorite_def)
  show ?thesis
    using h add_favorite_twice [OF h, of 5 "''A''" None 6 "''A''" None]
    by (simp add: add_favorite_def get_favorites_def)
qed

section \<open>Properties of the tab manager\<close>

lemma update_favorite_icon_keeps:
  "tabs (update_favorite_icon s) = tabs s"
  "current (update_favorite_icon s) = current s"
  "url_bar (update_favorite_icon s) = url_bar s"
  "store (update_favorite_icon s) = store s"
  by (simp_all add: update_favorite_icon_def Let_def split: option.splits)

lemma update_urlbar_keeps:
  "tabs (update_urlbar u b s) = tabs s"
  "current (update_urlbar u b s) = current s"
  "store (update_urlbar u b s) = store s"
  by (simp_all add: update_urlbar_def update_favorite_icon_keeps)

lemma on_tab_changed_keeps:
  assumes "current s < length (tabs s)"
  shows "\<exists>s'. on_tab_changed i s = Inr s' \<and> tabs s' = tabs s \<and> current s' = current s"
  using assms
  by (simp add: on_tab_changed_def current_browser_def update_urlbar_keeps
      update_favorite_icon_keeps)

text \<open>
  Removing a tab from a strip of two or more: the call returns, the current index stays
  inside the strip, and the strip loses the addressed tab when the index is one of its
  positions.
\<close>

lemma removeTab_tabs:
  assumes "2 \<le> length (tabs s)" and "current s < length (tabs s)"
  shows "\<exists>s'. removeTab i s = Inr s' \<and> current s' < length (tabs s') \<and>
           tabs s' = (if 0 \<le> i \<and> i < int (length (tabs s))
                      then take (nat i) (tabs s) @ drop (Suc (nat i)) (tabs s) else tabs s)"
proof (cases "0 \<le> i \<and> i < int (length (tabs s))")
  case False
  with assms show ?thesis by (auto simp add: removeTab_def)
next
  case True
  define k where "k = nat i"
  define ts where "ts = take k (tabs s) @ drop (Suc k) (tabs s)"
  define c where "c = (if k < current s then current s - 1
                       else if k = current s \<and> length ts \<le> k then k - 1 else current s)"
  from True have k: "k < length (tabs s)" by (auto simp add: k_def nat_less_iff)
  then have len: "length ts = length (tabs s) - 1" by (auto simp add: ts_def)
  show ?thesis
  proof (cases "k \<le> current s")
    case False
    then have "removeTab i s = Inr (s\<lparr>tabs := ts\<rparr>)"
      using True
      by (simp only: removeTab_def Let_def k_def [symmetric] ts_def [symmetric]
          c_def [symmetric] if_True if_False simp_thms)
    moreover have "current s < length ts" using False k len by simp
    ultimately show ?thesis using True by (simp add: ts_def k_def)
  next
    case le: True
    have ne: "ts \<noteq> []" using assms len by auto
    have "c < length ts" using assms k le len by (auto simp add: c_def)
    then have "current (s\<lparr>tabs := ts, current := c\<rparr>) < length (tabs (s\<lparr>tabs := ts, current := c\<rparr>))"
      by simp
    from on_tab_changed_keeps [OF this, of "int c"]
    obtain s' where "on_tab_changed (int c) (s\<lparr>tabs := ts, current := c\<rparr>) = Inr s'"
      and "tabs s' = ts" and "current s' = c" by auto
    moreover have "removeTab i s = on_tab_changed (int c) (s\<lparr>tabs := ts, current := c\<rparr>)"
      using True le ne
      by (simp only: removeTab_def Let_def k_def [symmetric] ts_def [symmetric]
          c_def [symmetric] if_True if_False simp_thms)
    ultimately show ?thesis using True \<open>c < length ts\<close> by (simp add: ts_def k_def)
  qed
qed

text \<open>
  Claim C6: \<^verbatim>\<open>close_tab\<close> never brings the number of tabs below 1. From a tab strip
  with a current tab the call returns, at least one tab is left and the current index
  still points into the strip. With only one tab open that tab stays, with its url set to
  the home page and its zoom factor set to 0.9; with two or more tabs the addressed tab
  is taken out (an index that addresses no tab leaves the strip as it is).
\<close>

theorem close_tab_keeps_a_tab:
  assumes "current s < length (tabs s)"
  shows "\<exists>s'. close_tab i s = Inr s' \<and> 1 \<le> length (tabs s') \<and>
           current s' < length (tabs s') \<and>
           tabs s' =
             (if length (tabs s) < 2
              then [(tabs s ! 0)\<lparr>view_url := home_url s, view_zoom := 0.9\<rparr>]
              else if 0 \<le> i \<and> i < int (length (tabs s))
              then take (nat i) (tabs s) @ drop (Suc (nat i)) (tabs s)
              else tabs s)"
proof (cases "length (tabs s) < 2")
  case True
  with assms obtain t where t: "tabs s = [t]"
    by (cases "tabs s") (auto simp add: less_Suc_eq)
  with assms have "current s = 0" by simp
  with t True show ?thesis
    by (simp add: close_tab_def current_browser_def)
next
  case False
  then have two: "2 \<le> length (tabs s)" by simp
  from removeTab_tabs [OF two assms, of i]
  obtain s' where r: "removeTab i s = Inr s'" and c: "current s' < length (tabs s')"
    and ts: "tabs s' = (if 0 \<le> i \<and> i < int (length (tabs s))
                      then take (nat i) (tabs s) @ drop (Suc (nat i)) (tabs s) else tabs s)"
    by auto
  have "1 \<le> length (tabs s')" using c by simp
  with False r c ts show ?thesis by (simp add: close_tab_def)
qed

theorem close_tab_keeps_a_tab_witness:
  "current (example_shell [example_site] 0) < length (tabs (example_shell [example_site] 0)) \<and>
   close_tab 0 (example_shell [example_site] 0) =
     Inr (example_shell
            [example_site\<lparr>view_url := ''data:text/html;charset=utf-8,doc'', view_zoom := 0.9\<rparr>] 0)"
proof -
  have b: "current (example_shell [example_site] 0) < length (tabs (example_shell [example_site] 0))"
    by (simp add: example_shell_def)
  show ?thesis using b close_tab_keeps_a_tab [OF b, of 0]
    by (simp add: close_tab_def current_browser_def example_shell_def)
qed

text \<open>
  Claim C10: every url whose string starts with \<^verbatim>\<open>data:text/html\<close>, the generated
  home page or not, is handled as the internal home page. When the current web view shows
  such a url, \<^verbatim>\<open>toggle_favorite\<close> only shows the warning that the page cannot be
  favorited and the store is as before; and \<^verbatim>\<open>update_urlbar\<close>, called for the
  current web view with such a url, leaves the url bar empty.
\<close>

theorem data_url_is_internal:
  assumes "startswith u ''data:text/html''"
  shows "(current_browser s = Some b \<and> view_url (tabs s ! b) = u \<longrightarrow>
            toggle_favorite document now s =
              show_message (Warning ''Favorite'' ''Cannot favorite this page!'') s \<and>
            store (toggle_favorite document now s) = store s) \<and>
         url_bar (update_urlbar u (current_browser s) s) = ''''"
  using assms
  by (simp add: toggle_favorite_def update_urlbar_def show_message_def
      update_favorite_icon_keeps)

theorem data_url_is_internal_witness:
  "startswith ''data:text/html,<p>hello</p>'' ''data:text/html'' \<and>
   current_browser
     (example_shell [example_site, example_home\<lparr>view_url := ''data:text/html,<p>hello</p>''\<rparr>] 1) =
     Some 1 \<and>
   toggle_favorite (\<lambda>favs image. ''doc'') 7
     (example_shell [example_site, example_home\<lparr>view_url := ''data:text/html,<p>hello</p>''\<rparr>] 1) =
     (example_shell [example_site, example_home\<lparr>view_url := ''data:text/html,<p>hello</p>''\<rparr>] 1)
       \<lparr>dialogs := [Warning ''Favorite'' ''Cannot favorite this page!'']\<rparr> \<and>
   url_bar (update_urlbar ''data:text/html,<p>hello</p>'' (Some 1)
      ((example_shell [example_site, example_home\<lparr>view_url := ''data:text/html,<p>hello</p>''\<rparr>] 1)
         \<lparr>url_bar := ''https://example.org/''\<rparr>)) = ''''"
proof -
  have a: "startswith ''data:text/html,<p>hello</p>'' ''data:text/html''"
    by (simp add: startswith_def)
  show ?thesis
    using a
      data_url_is_internal [OF a,
        of "example_shell [example_site, example_home\<lparr>view_url := ''data:text/html,<p>hello</p>''\<rparr>] 1"
           1 "\<lambda>favs image. ''doc''" 7]
      data_url_is_internal [OF a,
        of "(example_shell [example_site, example_home\<lparr>view_url := ''data:text/html,<p>hello</p>''\<rparr>] 1)
              \<lparr>url_bar := ''https://example.org/''\<rparr>"
           1 "\<lambda>favs image. ''doc''" 7]
    by (simp add: example_shell_def example_home_def current_browser_def show_message_def)
qed

section \<open>Properties of the zoom steps\<close>

text \<open>
  The stored zoom factors that \<^verbatim>\<open>zoom_in\<close> passes through from 1.0, each computed
  from the one before: 1.1, 1.2000000000000002, and so on up to 3.0, which is reached at
  the twentieth step and then stays.
\<close>

lemma new_zoom_step_1:
  "new_zoom (binary64 (1)) = 2476979795053773 / 2251799813685248"
  by code_simp

lemma new_zoom_step_2:
  "new_zoom (binary64 (2476979795053773 / 2251799813685248)) = 1351079888211149 / 1125899906842624"
  by code_simp

lemma new_zoom_step_3:
  "new_zoom (binary64 (1351079888211149 / 1125899906842624)) = 2927339757790823 / 2251799813685248"
  by code_simp

lemma new_zoom_step_4:
  "new_zoom (binary64 (2927339757790823 / 2251799813685248)) = 788129934789837 / 562949953421312"
  by code_simp

lemma new_zoom_step_5:
  "new_zoom (binary64 (788129934789837 / 562949953421312)) = 3377699720527873 / 2251799813685248"
  by code_simp

lemma new_zoom_step_6:
  "new_zoom (binary64 (3377699720527873 / 2251799813685248)) = 1801439850948199 / 1125899906842624"
  by code_simp

lemma new_zoom_step_7:
  "new_zoom (binary64 (1801439850948199 / 1125899906842624)) = 3828059683264923 / 2251799813685248"
  by code_simp

lemma new_zoom_step_8:
  "new_zoom (binary64 (3828059683264923 / 2251799813685248)) = 506654958079181 / 281474976710656"
  by code_simp

lemma new_zoom_step_9:
  "new_zoom (binary64 (506654958079181 / 281474976710656)) = 4278419646001973 / 2251799813685248"
  by code_simp

lemma new_zoom_step_10:
  "new_zoom (binary64 (4278419646001973 / 2251799813685248)) = 2251799813685249 / 1125899906842624"
  by code_simp

lemma new_zoom_step_11:
  "new_zoom (binary64 (2251799813685249 / 1125899906842624)) = 4728779608739023 / 2251799813685248"
  by code_simp

lemma new_zoom_step_12:
  "new_zoom (binary64 (4728779608739023 / 2251799813685248)) = 1238489897526887 / 562949953421312"
  by code_simp

lemma new_zoom_step_13:
  "new_zoom (binary64 (1238489897526887 / 562949953421312)) = 5179139571476073 / 2251799813685248"
  by code_simp

lemma new_zoom_step_14:
  "new_zoom (binary64 (5179139571476073 / 2251799813685248)) = 2702159776422299 / 1125899906842624"
  by code_simp

lemma new_zoom_step_15:
  "new_zoom (binary64 (2702159776422299 / 1125899906842624)) = 5629499534213123 / 2251799813685248"
  by code_simp

lemma new_zoom_step_16:
  "new_zoom (binary64 (5629499534213123 / 2251799813685248)) = 365917469723853 / 140737488355328"
  by code_simp

lemma new_zoom_step_17:
  "new_zoom (binary64 (365917469723853 / 140737488355328)) = 6079859496950173 / 2251799813685248"
  by code_simp

lemma new_zoom_step_18:
  "new_zoom (binary64 (6079859496950173 / 2251799813685248)) = 3152519739159349 / 1125899906842624"
  by code_simp

lemma new_zoom_step_19:
  "new_zoom (binary64 (3152519739159349 / 1125899906842624)) = 6530219459687223 / 2251799813685248"
  by code_simp

lemma new_zoom_step_20:
  "new_zoom (binary64 (6530219459687223 / 2251799813685248)) = 3"
  by code_simp

lemma new_zoom_step_21:
  "new_zoom (binary64 (3)) = 3"
  by code_simp

lemmas new_zoom_steps =
  new_zoom_step_1 new_zoom_step_2 new_zoom_step_3 new_zoom_step_4 new_zoom_step_5
  new_zoom_step_6 new_zoom_step_7 new_zoom_step_8 new_zoom_step_9 new_zoom_step_10
  new_zoom_step_11 new_zoom_step_12 new_zoom_step_13 new_zoom_step_14 new_zoom_step_15
  new_zoom_step_16 new_zoom_step_17 new_zoom_step_18 new_zoom_step_19 new_zoom_step_20
  new_zoom_step_21

text \<open>
  Repeated \<^verbatim>\<open>zoom_in\<close> keeps the current web view and steps its stored zoom
  factor.
\<close>

lemma zoom_in_funpow:
  assumes "current_browser s = Some b"
  shows "current_browser ((zoom_in ^^ n) s) = Some b \<and>
         view_zoom (tabs ((zoom_in ^^ n) s) ! b) =
           ((\<lambda>z. new_zoom (binary64 z)) ^^ n) (view_zoom (tabs s ! b))"
proof (induction n)
  case 0
  with assms show ?case by simp
next
  case (Suc n)
  then have c: "current_browser ((zoom_in ^^ n) s) = Some b" by simp
  then have b: "b < length (tabs ((zoom_in ^^ n) s))"
    by (auto simp add: current_browser_def split: if_splits)
  from c b Suc show ?case
    by (simp add: zoom_in_def zoomFactor_def current_browser_def split: if_splits)
qed

lemma ten_steps: "((\<lambda>z. new_zoom (binary64 z)) ^^ 10) 1 = 2 + 1 / 2 ^ 50"
  by (simp add: eval_nat_numeral new_zoom_steps)

lemma twenty_eight_steps: "((\<lambda>z. new_zoom (binary64 z)) ^^ 28) 1 = 3"
  by (simp add: eval_nat_numeral new_zoom_steps)

text \<open>
  Claim C9 says that ten consecutive \<^verbatim>\<open>zoom_in\<close> calls from a zoom factor of 1.0
  yield exactly 2.0. The ten float additions of 0.1 do not: in a shell whose current web
  view has zoom factor 1.0, the zoom factor after ten calls is not 2.
\<close>

theorem zoom_in_ten_steps_counterexample:
  "current_browser (example_shell [example_site\<lparr>view_zoom := 1\<rparr>] 0) = Some 0 \<and>
   view_zoom (tabs (example_shell [example_site\<lparr>view_zoom := 1\<rparr>] 0) ! 0) = 1 \<and>
   view_zoom (tabs ((zoom_in ^^ 10) (example_shell [example_site\<lparr>view_zoom := 1\<rparr>] 0)) ! 0) \<noteq> 2"
proof -
  have c: "current_browser (example_shell [example_site\<lparr>view_zoom := 1\<rparr>] 0) = Some 0"
    by (simp add: current_browser_def example_shell_def)
  have z: "view_zoom (tabs (example_shell [example_site\<lparr>view_zoom := 1\<rparr>] 0) ! 0) = 1"
    by (simp add: example_shell_def)
  from zoom_in_funpow [OF c, of 10] z ten_steps
  have "view_zoom (tabs ((zoom_in ^^ 10) (example_shell [example_site\<lparr>view_zoom := 1\<rparr>] 0)) ! 0) =
        2 + 1 / 2 ^ 50"
    by simp
  with c z show ?thesis by simp
qed

text \<open>
  Claim C9 as amended: starting from a zoom factor of 1.0, ten consecutive
  \<^verbatim>\<open>zoom_in\<close> calls yield the float 2.000000000000001, which is 2 + 2^-50, and
  twenty-eight consecutive calls saturate the zoom at exactly 3.0; each call adds 0.1 in
  binary64 arithmetic and caps the sum at 3.0.
\<close>

theorem zoom_in_from_one:
  assumes "current_browser s = Some b" and "view_zoom (tabs s ! b) = 1"
  shows "view_zoom (tabs ((zoom_in ^^ 10) s) ! b) = 2 + 1 / 2 ^ 50 \<and>
         view_zoom (tabs ((zoom_in ^^ 28) s) ! b) = 3"
  using zoom_in_funpow [OF assms(1), of 10] zoom_in_funpow [OF assms(1), of 28] assms(2)
    ten_steps twenty_eight_steps
  by simp

theorem zoom_in_from_one_witness:
  "current_browser (example_shell [example_home, example_site\<lparr>view_zoom := 1\<rparr>] 1) = Some 1 \<and>
   view_zoom (tabs (example_shell [example_home, example_site\<lparr>view_zoom := 1\<rparr>] 1) ! 1) = 1 \<and>
   view_zoom (tabs ((zoom_in ^^ 10)
     (example_shell [example_home, example_site\<lparr>view_zoom := 1\<rparr>] 1)) ! 1) = 2 + 1 / 2 ^ 50 \<and>
   view_zoom (tabs ((zoom_in ^^ 28)
     (example_shell [example_home, example_site\<lparr>view_zoom := 1\<rparr>] 1)) ! 1) = 3"
proof -
  have c: "current_browser (example_shell [example_home, example_site\<lparr>view_zoom := 1\<rparr>] 1) =
           Some 1"
    by (simp add: current_browser_def example_shell_def)
  have z: "view_zoom (tabs (example_shell [example_home, example_site\<lparr>view_zoom := 1\<rparr>] 1) ! 1) = 1"
    by (simp add: example_shell_def)
  show ?thesis using c z zoom_in_from_one [OF c z] by simp
qed

section \<open>Properties of the resize geometry\<close>

text \<open>Which directions a word of the source's substring tests occurs in.\<close>

lemma mentions_left: "mentions ''left'' d = (d = Left \<or> d = Top_left \<or> d = Bottom_left)"
  by (cases d; simp add: mentions_def; code_simp)

lemma mentions_right: "mentions ''right'' d = (d = Right \<or> d = Top_right \<or> d = Bottom_right)"
  by (cases d; simp add: mentions_def; code_simp)

lemma mentions_top: "mentions ''top'' d = (d = Top \<or> d = Top_left \<or> d = Top_right)"
  by (cases d; simp add: mentions_def; code_simp)

lemma mentions_bottom:
  "mentions ''bottom'' d = (d = Bottom \<or> d = Bottom_left \<or> d = Bottom_right)"
  by (cases d; simp add: mentions_def; code_simp)

lemmas mentions_simps = mentions_left mentions_right mentions_top mentions_bottom

text \<open>
  Claim C7 says that a drag on any edge that would bring the width (or height) below the
  minimum gives the minimum width (or height), with the origin on that axis unchanged.
  On a left edge it does not: a window 800 wide with minimum width 400, dragged by 500 on
  its left edge, would become 300 wide, and the geometry handed to
  \<^verbatim>\<open>setGeometry\<close> is 800 wide, not 400.
\<close>

theorem resize_left_not_clamped_counterexample:
  "mentions ''left'' Left \<and> rect_width example_rect - 500 < (400::int) \<and>
   rect_width (resize_geometry Left example_rect (500, 0) 400 300) = 800 \<and>
   rect_width (resize_geometry Left example_rect (500, 0) 400 300) \<noteq> 400"
  by (simp add: resize_geometry_def mentions_simps example_rect_def)

text \<open>
  Claim C7 as amended: in a manual resize-drag from an anchor geometry on a right edge
  (right, top_right, bottom_right), a delta that would bring the width below the window's
  minimum width gives exactly the minimum width, with the x origin unchanged; on a bottom
  edge (bottom, bottom_left, bottom_right), a delta that would bring the height below the
  minimum height gives exactly the minimum height, with the y origin unchanged. Nothing
  is said about such a drag on a left or top edge.
\<close>

theorem resize_below_minimum:
  "(mentions ''right'' d \<and> rect_width geo + dx < mw \<longrightarrow>
      rect_width (resize_geometry d geo (dx, dy) mw mh) = mw \<and>
      rect_x (resize_geometry d geo (dx, dy) mw mh) = rect_x geo) \<and>
   (mentions ''bottom'' d \<and> rect_height geo + dy < mh \<longrightarrow>
      rect_height (resize_geometry d geo (dx, dy) mw mh) = mh \<and>
      rect_y (resize_geometry d geo (dx, dy) mw mh) = rect_y geo)"
  by (cases d; simp add: resize_geometry_def mentions_simps Let_def)

theorem resize_below_minimum_witness:
  "mentions ''right'' Bottom_right \<and> rect_width example_rect + (- 500) < 400 \<and>
   mentions ''bottom'' Bottom_right \<and> rect_height example_rect + (- 400) < 300 \<and>
   resize_geometry Bottom_right example_rect (- 500, - 400) 400 300 =
     \<lparr>rect_x = 100, rect_y = 100, rect_width = 400, rect_height = 300\<rparr>"
  using resize_below_minimum [where d = Bottom_right and geo = example_rect and dx = "- 500"
      and dy = "- 400" and mw = 400 and mh = 300]
  by (simp add: resize_geometry_def mentions_simps example_rect_def)

text \<open>
  Claim C8 says that for a window of size 800 by 600 at (100, 100) whose minimum size is
  below those values, the drag by (50, 30) on the bottom-right corner gives 850 by 630 at
  the same origin and the drag by (20, 10) on the top-left corner gives 780 by 590 at
  (120, 110). A minimum size of 790 by 595 is below 800 by 600, and there the drag on the
  top-left corner is ignored on both axes.
\<close>

theorem resize_example_counterexample:
  "(790::int) < rect_width example_rect \<and> (595::int) < rect_height example_rect \<and>
   resize_geometry Top_left example_rect (20, 10) 790 595 = example_rect"
  by (simp add: resize_geometry_def mentions_simps example_rect_def)

text \<open>
  Claim C8 as amended: for a window of size 800 by 600 at (100, 100) whose minimum size
  is at most 780 by 590, the drag by (50, 30) on the bottom-right corner gives 850 by 630
  at the same origin and the drag by (20, 10) on the top-left corner gives 780 by 590 at
  (120, 110).
\<close>

theorem resize_example:
  assumes "mw \<le> 780" and "mh \<le> 590"
  shows "resize_geometry Bottom_right
           \<lparr>rect_x = 100, rect_y = 100, rect_width = 800, rect_height = 600\<rparr> (50, 30) mw mh =
         \<lparr>rect_x = 100, rect_y = 100, rect_width = 850, rect_height = 630\<rparr> \<and>
         resize_geometry Top_left
           \<lparr>rect_x = 100, rect_y = 100, rect_width = 800, rect_height = 600\<rparr> (20, 10) mw mh =
         \<lparr>rect_x = 120, rect_y = 110, rect_width = 780, rect_height = 590\<rparr>"
  using assms by (simp add: resize_geometry_def mentions_simps)

theorem resize_example_witness:
  "(0::int) \<le> 780 \<and> (0::int) \<le> 590 \<and>
   resize_geometry Bottom_right
     \<lparr>rect_x = 100, rect_y = 100, rect_width = 800, rect_height = 600\<rparr> (50, 30) 0 0 =
   \<lparr>rect_x = 100, rect_y = 100, rect_width = 850, rect_height = 630\<rparr> \<and>
   resize_geometry Top_left
     \<lparr>rect_x = 100, rect_y = 100, rect_width = 800, rect_height = 600\<rparr> (20, 10) 0 0 =
   \<lparr>rect_x = 120, rect_y = 110, rect_width = 780, rect_height = 590\<rparr>"
proof -
  have a: "(0::int) \<le> 780" and b: "(0::int) \<le> 590" by simp_all
  show ?thesis using a b resize_example [OF a b] by simp
qed

end
